theory Spec2Isabelle
  imports Complex_Main "HOL-Library.Multiset"
begin

section \<open>Numbers, vectors and tensors\<close>

text \<open>
  A floating-point number is either a number or NaN.  Numbers are idealised as reals
  (no rounding, no infinities); NaN is kept as a value of its own because the program can
  produce it (the mean of an empty slice) and because every comparison with it is false.
\<close>

datatype fl = NaN | Val real

fun fl_add :: "fl \<Rightarrow> fl \<Rightarrow> fl" where
  "fl_add (Val x) (Val y) = Val (x + y)"
| "fl_add _ _ = NaN"

fun fl_mul :: "fl \<Rightarrow> fl \<Rightarrow> fl" where
  "fl_mul (Val x) (Val y) = Val (x * y)"
| "fl_mul _ _ = NaN"

text \<open>
  Division: \<open>0 / 0\<close> is NaN, as in IEEE arithmetic.  A non-zero number over zero would be
  an infinity; the program only divides by a row count (zero only under a zero sum) and by
  a norm clamped from below, so that case is mapped to NaN and never reached.
\<close>

fun fl_div :: "fl \<Rightarrow> fl \<Rightarrow> fl" where
  "fl_div (Val x) (Val y) = (if y = 0 then NaN else Val (x / y))"
| "fl_div _ _ = NaN"

fun fl_sqrt :: "fl \<Rightarrow> fl" where
  "fl_sqrt (Val x) = (if x < 0 then NaN else Val (sqrt x))"
| "fl_sqrt NaN = NaN"

text \<open>\<open>clamp_min\<close>: the larger of a number and a bound; NaN stays NaN.\<close>

fun fl_clamp_min :: "fl \<Rightarrow> real \<Rightarrow> fl" where
  "fl_clamp_min (Val x) b = Val (max x b)"
| "fl_clamp_min NaN b = NaN"

text \<open>Python's \<open><\<close> on floats: false as soon as one side is NaN.\<close>

fun fl_less :: "fl \<Rightarrow> fl \<Rightarrow> bool" where
  "fl_less (Val x) (Val y) = (x < y)"
| "fl_less _ _ = False"

fun fl_ge :: "fl \<Rightarrow> fl \<Rightarrow> bool" where
  "fl_ge (Val x) (Val y) = (y \<le> x)"
| "fl_ge _ _ = False"

type_synonym vec = "fl list"

definition fl_sum :: "fl list \<Rightarrow> fl" where
  "fl_sum xs = foldr fl_add xs (Val 0)"

definition vec_add :: "vec \<Rightarrow> vec \<Rightarrow> vec" where
  "vec_add a b = map2 fl_add a b"

text \<open>
  \<open>torch.mean(t, dim=0)\<close> on a matrix \<open>t\<close> with \<open>d\<close> columns given as its list of rows:
  the column sums divided by the number of rows.  With no rows every column is \<open>0 / 0\<close>.
\<close>

definition torch_mean :: "nat \<Rightarrow> vec list \<Rightarrow> vec" where
  "torch_mean d rows =
     map (\<lambda>s. fl_div s (Val (real (length rows))))
         (foldr vec_add rows (replicate d (Val 0)))"

text \<open>\<open>t[l:h]\<close> for non-negative bounds: Python clamps both to the length.\<close>

definition slice :: "nat \<Rightarrow> nat \<Rightarrow> 'a list \<Rightarrow> 'a list" where
  "slice l h xs = take (h - l) (drop l xs)"

text \<open>\<open>np.cumsum\<close>: the running sums of a list of counts.\<close>

fun cumsum_from :: "nat \<Rightarrow> nat list \<Rightarrow> nat list" where
  "cumsum_from acc [] = []"
| "cumsum_from acc (x # xs) = (acc + x) # cumsum_from (acc + x) xs"

definition cumsum :: "nat list \<Rightarrow> nat list" where
  "cumsum xs = cumsum_from 0 xs"

section \<open>Data model\<close>

datatype error =
    KeyError string
  | TypeError
  | RuntimeError
  | ValueError
  | IndexError
  | NotImplementedError string
  | SystemExit nat
  | FileNotFoundError string
  | JSONDecodeError
  | ServiceError

record publication =
  title :: string
  abstract :: string

record author_profile =
  name :: string
  list_of_pubs :: "publication list"
  summary :: string

record args =
  data_path :: string
  query_path :: string
  output_path :: string
  llm :: string
  embedding_model_name_or_path :: string
  author_embedding :: string
  device :: string

text \<open>
  The embedding model is an external collaborator: a function from a text to its
  embedding, already normalised (\<open>normalize_embeddings=True\<close>), of a fixed dimension.
  Encoding a batch encodes each text; an empty batch gives a matrix without rows.
\<close>

record sentence_transformer =
  encode_text :: "string \<Rightarrow> vec"
  embedding_dim :: nat

text \<open>
  \<open>list_of_authors\<close> holds the summaries under \<open>summarize\<close> and the publication lists
  otherwise (line 131 of \<open>main.py\<close>).
\<close>

datatype authors_input = Summaries "string list" | Pub_lists "publication list list"

record ranked_entry =
  corpus_id :: nat
  score :: fl

datatype encode_call = Encode_one string | Encode_batch "string list"

section \<open>The query builder\<close>

definition newline :: char where
  "newline = CHR 0x0A"

text \<open>\<open>query_dict\<close> is the dictionary read from the query file; a missing key raises.\<close>

definition build_query :: "(string \<rightharpoonup> string) \<Rightarrow> error + string" where
  "build_query query_dict =
     (case query_dict ''title'' of
        None \<Rightarrow> Inl (KeyError ''title'')
      | Some t \<Rightarrow>
          (case query_dict ''abstract'' of
             None \<Rightarrow> Inl (KeyError ''abstract'')
           | Some a \<Rightarrow> Inr (''Title: '' @ t @ [newline] @ ''Abstract: '' @ a)))"

definition pub_text :: "publication \<Rightarrow> string" where
  "pub_text pub = ''Title: '' @ title pub @ [newline] @ ''Abstract: '' @ abstract pub"

section \<open>Similarity search\<close>

definition vec_dot :: "vec \<Rightarrow> vec \<Rightarrow> fl" where
  "vec_dot a b = fl_sum (map2 fl_mul a b)"

definition vec_norm :: "vec \<Rightarrow> fl" where
  "vec_norm a = fl_sqrt (vec_dot a a)"

definition norm_eps :: real where
  "norm_eps = 1 / 10 ^ 12"

definition normalize_embeddings :: "vec \<Rightarrow> vec" where
  "normalize_embeddings a = map (\<lambda>x. fl_div x (fl_clamp_min (vec_norm a) norm_eps)) a"

definition cos_sim :: "vec \<Rightarrow> vec \<Rightarrow> fl" where
  "cos_sim a b = vec_dot (normalize_embeddings a) (normalize_embeddings b)"

text \<open>
  Stable insertion into a list kept in descending score order: the new entry goes in
  front of the first entry with a strictly smaller score, hence behind every entry with
  the same score.
\<close>

fun insert_desc :: "ranked_entry \<Rightarrow> ranked_entry list \<Rightarrow> ranked_entry list" where
  "insert_desc e [] = [e]"
| "insert_desc e (y # ys) =
     (if fl_less (score y) (score e) then e # y # ys else y # insert_desc e ys)"

definition sort_desc :: "ranked_entry list \<Rightarrow> ranked_entry list" where
  "sort_desc es = foldl (\<lambda>acc e. insert_desc e acc) [] es"

text \<open>
  Modelled from the spec: \<open>semantic_search\<close> belongs to the sentence-transformers library
  and its source is not part of the repository.  Following section 4.3 of the
  specification it scores every corpus vector by its cosine similarity with the query
  (each vector divided by its norm, the norm clamped from below so that a zero vector
  stays zero), numbers the scores by corpus position, sorts them by descending score with
  ties kept in position order, and returns the first \<open>top_k\<close> entries.
\<close>

definition semantic_search :: "vec \<Rightarrow> vec list \<Rightarrow> nat \<Rightarrow> ranked_entry list" where
  "semantic_search query_embedding corpus_embedding top_k =
     take top_k
       (sort_desc
          (map (\<lambda>(i, v). \<lparr>corpus_id = i, score = cos_sim query_embedding v\<rparr>)
               (zip [0 ..< length corpus_embedding] corpus_embedding)))"

section \<open>The fitness engine\<close>

text \<open>
  \<open>compute_fitness\<close> (lines 71 to 100).  The result is paired with the calls made to the
  embedding model, in order.  The query is embedded first (line 84), before the policy is
  looked at.  Under \<open>aggregate\<close> the publication texts of all authors are embedded in one
  batch and every author's rows are averaged; \<open>torch.stack\<close> rejects an empty list of
  rows.  A \<open>list_of_authors\<close> of the other policy's shape is a type error; \<open>main\<close> never
  passes one.
\<close>

definition corpus_aggregate :: "sentence_transformer \<Rightarrow> publication list list \<Rightarrow> vec list" where
  "corpus_aggregate model list_of_authors =
     (let n_pub_per_author = map length list_of_authors;
          low = cumsum (0 # butlast n_pub_per_author);
          high = cumsum n_pub_per_author;
          stacked_pubs = map pub_text (concat list_of_authors);
          all_pub_embedding = map (encode_text model) stacked_pubs
      in map (\<lambda>(l, h). torch_mean (embedding_dim model) (slice l h all_pub_embedding))
             (zip low high))"

definition compute_fitness ::
  "sentence_transformer \<Rightarrow> string \<Rightarrow> authors_input \<Rightarrow> args
     \<Rightarrow> encode_call list \<times> (error + ranked_entry list)" where
  "compute_fitness model query list_of_authors args =
     (let query_embedding = encode_text model query;
          calls = [Encode_one query]
      in if author_embedding args = ''aggregate'' then
           (case list_of_authors of
              Summaries [] \<Rightarrow> (calls @ [Encode_batch []], Inl RuntimeError)
            | Summaries (s # ss) \<Rightarrow> (calls, Inl TypeError)
            | Pub_lists authors \<Rightarrow>
                (let calls' = calls @ [Encode_batch (map pub_text (concat authors))];
                     corpus_embedding = corpus_aggregate model authors
                 in if corpus_embedding = [] then (calls', Inl RuntimeError)
                    else (calls', Inr (semantic_search query_embedding corpus_embedding
                                         (length authors)))))
         else if author_embedding args = ''summarize'' then
           (case list_of_authors of
              Pub_lists (p # ps) \<Rightarrow> (calls, Inl TypeError)
            | Pub_lists [] \<Rightarrow>
                (calls @ [Encode_batch []], Inr (semantic_search query_embedding [] 0))
            | Summaries texts \<Rightarrow>
                (calls @ [Encode_batch texts],
                 Inr (semantic_search query_embedding (map (encode_text model) texts)
                        (length texts))))
         else (calls,
               Inl (NotImplementedError
                      (''Author Embedding:'' @ author_embedding args
                         @ '' method not implemented''))))"

section \<open>The pipeline and its collaborators\<close>

text \<open>
  The file system maps a path, compared as written, to the content of the file there.
  The world also records, in order, the files opened for reading, the calls to the
  embedding model and the calls to the justification service.  Directories are not
  modelled: \<open>os.makedirs\<close> is a no-op and opening a file for writing succeeds.
\<close>

type_synonym justify_call = "(string \<rightharpoonup> string) \<times> string \<times> int"

record world =
  files :: "string \<rightharpoonup> string"
  files_read :: "string list"
  encode_calls :: "encode_call list"
  justify_calls :: "justify_call list"

text \<open>
  What \<open>main.py\<close> imports and calls but does not define, taken as parameters: the JSON
  parser and printer on the shapes the program uses, the profile builder
  (\<open>process_data.build_author_profile\<close>), the justification service
  (\<open>generate_justification.generate_justification\<close>, a remote call that may fail), and
  the text \<open>json.dumps\<close> prints for a float.
\<close>

record 'raw services =
  json_loads :: "string \<Rightarrow> error + 'raw"
  json_load_query :: "string \<Rightarrow> error + (string \<rightharpoonup> string)"
  json_load_profile :: "string \<Rightarrow> error + author_profile list"
  json_dump_profile :: "author_profile list \<Rightarrow> string"
  build_author_profile :: "'raw list \<Rightarrow> args \<Rightarrow> error + author_profile list"
  generate_justification ::
    "(string \<rightharpoonup> string) \<Rightarrow> string \<Rightarrow> int \<Rightarrow> args \<Rightarrow> error + string"
  float_repr :: "fl \<Rightarrow> string"

record result =
  result_name :: string
  fitness :: fl
  explanation :: string

text \<open>\<open>get_args\<close>: \<open>argparse\<close> exits with status 2 on a value outside \<open>choices\<close>.\<close>

definition get_args :: "args \<Rightarrow> error + args" where
  "get_args argv =
     (if author_embedding argv \<in> set [''aggregate'', ''summarize''] then Inr argv
      else Inl (SystemExit 2))"

definition read_file :: "world \<Rightarrow> string \<Rightarrow> world \<times> (error + string)" where
  "read_file w path =
     (case files w path of
        None \<Rightarrow> (w, Inl (FileNotFoundError path))
      | Some content \<Rightarrow> (w\<lparr>files_read := files_read w @ [path]\<rparr>, Inr content))"

text \<open>The lines of a text file, without their line ends.\<close>

fun lines_from :: "string \<Rightarrow> string \<Rightarrow> string list" where
  "lines_from cur [] = (if cur = [] then [] else [cur])"
| "lines_from cur (c # cs) =
     (if c = newline then cur # lines_from [] cs else lines_from (cur @ [c]) cs)"

definition py_lines :: "string \<Rightarrow> string list" where
  "py_lines content = lines_from [] content"

fun load_all :: "(string \<Rightarrow> error + 'a) \<Rightarrow> string list \<Rightarrow> error + 'a list" where
  "load_all f [] = Inr []"
| "load_all f (l # ls) =
     (case f l of
        Inl e \<Rightarrow> Inl e
      | Inr v \<Rightarrow> (case load_all f ls of Inl e \<Rightarrow> Inl e | Inr vs \<Rightarrow> Inr (v # vs)))"

definition read_jsonl :: "'raw services \<Rightarrow> world \<Rightarrow> string \<Rightarrow> world \<times> (error + 'raw list)" where
  "read_jsonl srv w path =
     (case read_file w path of
        (w1, Inl e) \<Rightarrow> (w1, Inl e)
      | (w1, Inr content) \<Rightarrow> (w1, load_all (json_loads srv) (py_lines content)))"

definition cache_path :: string where
  "cache_path = ''log/author_profile.json''"

text \<open>Lines 114 to 125 of \<open>main\<close>: the profiles come from the cache file when it exists.\<close>

definition load_author_profile ::
  "'raw services \<Rightarrow> args \<Rightarrow> world \<Rightarrow> world \<times> (error + author_profile list)" where
  "load_author_profile srv args w =
     (if files w cache_path = None then
        (case read_jsonl srv w (data_path args) of
           (w1, Inl e) \<Rightarrow> (w1, Inl e)
         | (w1, Inr raw) \<Rightarrow>
             (case build_author_profile srv raw args of
                Inl e \<Rightarrow> (w1, Inl e)
              | Inr database \<Rightarrow>
                  (w1\<lparr>files := (files w1)(cache_path \<mapsto> json_dump_profile srv database)\<rparr>,
                   Inr database)))
      else
        (case read_file w cache_path of
           (w1, Inl e) \<Rightarrow> (w1, Inl e)
         | (w1, Inr content) \<Rightarrow> (w1, json_load_profile srv content)))"

text \<open>Lines 105 to 133 of \<open>main\<close>: everything up to the ranking.\<close>

definition main_ranking ::
  "'raw services \<Rightarrow> sentence_transformer \<Rightarrow> args \<Rightarrow> world
     \<Rightarrow> world \<times> (error + (string \<rightharpoonup> string) \<times> author_profile list \<times> ranked_entry list)" where
  "main_ranking srv model args w =
     (case read_file w (query_path args) of
        (w1, Inl e) \<Rightarrow> (w1, Inl e)
      | (w1, Inr query_text) \<Rightarrow>
     (case json_load_query srv query_text of
        Inl e \<Rightarrow> (w1, Inl e)
      | Inr query_dict \<Rightarrow>
     (case load_author_profile srv args w1 of
        (w2, Inl e) \<Rightarrow> (w2, Inl e)
      | (w2, Inr database) \<Rightarrow>
     (case build_query query_dict of
        Inl e \<Rightarrow> (w2, Inl e)
      | Inr query \<Rightarrow>
         (let list_of_authors =
                (if author_embedding args = ''summarize'' then Summaries (map summary database)
                 else Pub_lists (map list_of_pubs database));
              fit = compute_fitness model query list_of_authors args;
              w3 = w2\<lparr>encode_calls := encode_calls w2 @ fst fit\<rparr>
          in case snd fit of
               Inl e \<Rightarrow> (w3, Inl e)
             | Inr sorted_id_and_scores \<Rightarrow>
                 (w3, Inr (query_dict, database, sorted_id_and_scores)))))))"

text \<open>
  Python's \<open>round\<close> on a float: to the nearest integer, a half to the even neighbour;
  NaN cannot be converted to an integer.
\<close>

definition round_half_even :: "real \<Rightarrow> int" where
  "round_half_even x =
     (let f = \<lfloor>x\<rfloor>; r = x - of_int f
      in if r < 1 / 2 then f else if 1 / 2 < r then f + 1 else if even f then f else f + 1)"

fun py_round :: "fl \<Rightarrow> error + int" where
  "py_round NaN = Inl ValueError"
| "py_round (Val x) = Inr (round_half_even x)"

text \<open>
  The loop of lines 136 to 145, paired with the calls it makes to the justification
  service.  An exception leaves the loop: the results gathered so far are lost.
\<close>

fun main_loop ::
  "'raw services \<Rightarrow> (string \<rightharpoonup> string) \<Rightarrow> author_profile list \<Rightarrow> args
     \<Rightarrow> ranked_entry list \<Rightarrow> justify_call list \<times> (error + result list)" where
  "main_loop srv query_dict database args [] = ([], Inr [])"
| "main_loop srv query_dict database args (item # rest) =
     (let author_id = corpus_id item; sc = score item
      in if length database \<le> author_id then ([], Inl IndexError)
         else
           (let author_name = name (database ! author_id);
                author_summary = summary (database ! author_id)
            in case py_round (fl_mul sc (Val 100)) of
                 Inl e \<Rightarrow> ([], Inl e)
               | Inr percent \<Rightarrow>
                   (case generate_justification srv query_dict author_summary percent args of
                      Inl e \<Rightarrow> ([(query_dict, author_summary, percent)], Inl e)
                    | Inr reason \<Rightarrow>
                        (let more = main_loop srv query_dict database args rest
                         in ((query_dict, author_summary, percent) # fst more,
                             (case snd more of
                                Inl e \<Rightarrow> Inl e
                              | Inr results \<Rightarrow>
                                  Inr (\<lparr>result_name = author_name, fitness = sc,
                                         explanation = reason\<rparr> # results)))))))"

text \<open>
  \<open>json.dumps\<close> on a string (\<open>ensure_ascii\<close>): quote, backslash and the usual control
  characters get their short escapes, every other character outside the printable ASCII
  range a \<open>\u\<close> escape.  Characters stand for code points below 256.
\<close>

definition hex_digit :: "nat \<Rightarrow> char" where
  "hex_digit n = ''0123456789abcdef'' ! (n mod 16)"

definition json_escape_char :: "char \<Rightarrow> string" where
  "json_escape_char c =
     (if c = CHR 0x22 then [CHR 0x5C, CHR 0x22]
      else if c = CHR 0x5C then [CHR 0x5C, CHR 0x5C]
      else if c = CHR 0x0A then [CHR 0x5C, CHR ''n'']
      else if c = CHR 0x0D then [CHR 0x5C, CHR ''r'']
      else if c = CHR 0x09 then [CHR 0x5C, CHR ''t'']
      else if c = CHR 0x08 then [CHR 0x5C, CHR ''b'']
      else if c = CHR 0x0C then [CHR 0x5C, CHR ''f'']
      else if (of_char c :: nat) < 0x20 \<or> 0x7E < (of_char c :: nat) then
        [CHR 0x5C, CHR ''u'', CHR ''0'', CHR ''0'',
         hex_digit (of_char c div 16), hex_digit (of_char c mod 16)]
      else [c])"

definition json_string :: "string \<Rightarrow> string" where
  "json_string s = [CHR 0x22] @ concat (map json_escape_char s) @ [CHR 0x22]"

definition json_dumps :: "'raw services \<Rightarrow> result \<Rightarrow> string" where
  "json_dumps srv item =
     [CHR ''{''] @ json_string ''name'' @ '': '' @ json_string (result_name item)
       @ '', '' @ json_string ''fitness'' @ '': '' @ float_repr srv (fitness item)
       @ '', '' @ json_string ''explanation'' @ '': '' @ json_string (explanation item)
       @ [CHR ''}'']"

text \<open>\<open>os.path.join\<close> on POSIX paths.\<close>

definition os_path_join :: "string \<Rightarrow> string \<Rightarrow> string" where
  "os_path_join a b =
     (if b \<noteq> [] \<and> hd b = CHR ''/'' then b
      else if a = [] \<or> last a = CHR ''/'' then a @ b
      else a @ ''/'' @ b)"

definition output_file :: "args \<Rightarrow> string" where
  "output_file args =
     os_path_join (output_path args) (''output_'' @ author_embedding args @ ''.txt'')"

definition output_text :: "'raw services \<Rightarrow> result list \<Rightarrow> string" where
  "output_text srv results = concat (map (\<lambda>item. json_dumps srv item @ [newline]) results)"

text \<open>Lines 135 to 149 of \<open>main\<close>: justify every ranked entry, then write the output.\<close>

definition main_output ::
  "'raw services \<Rightarrow> args \<Rightarrow> (string \<rightharpoonup> string) \<Rightarrow> author_profile list \<Rightarrow> ranked_entry list
     \<Rightarrow> world \<Rightarrow> world \<times> error option" where
  "main_output srv args query_dict database sorted_id_and_scores w =
     (let run = main_loop srv query_dict database args sorted_id_and_scores;
          w1 = w\<lparr>justify_calls := justify_calls w @ fst run\<rparr>
      in case snd run of
           Inl e \<Rightarrow> (w1, Some e)
         | Inr results \<Rightarrow>
             (w1\<lparr>files := (files w1)(output_file args \<mapsto> output_text srv results)\<rparr>, None))"

definition main :: "'raw services \<Rightarrow> sentence_transformer \<Rightarrow> args \<Rightarrow> world \<Rightarrow> world \<times> error option" where
  "main srv model argv w =
     (case get_args argv of
        Inl e \<Rightarrow> (w, Some e)
      | Inr args \<Rightarrow>
          (case main_ranking srv model args w of
             (w1, Inl e) \<Rightarrow> (w1, Some e)
           | (w1, Inr (query_dict, database, sorted_id_and_scores)) \<Rightarrow>
               main_output srv args query_dict database sorted_id_and_scores w1))"

section \<open>Properties\<close>

subsection \<open>The query builder\<close>

text \<open>
  C9: the query builder is a function of the query record alone.  On every query
  dictionary that has the fields \<open>title\<close> and \<open>abstract\<close> it does not fail and returns
  exactly \<open>Title: \<close>, the title, a newline, \<open>Abstract: \<close> and the abstract.
\<close>

theorem build_query_format:
  assumes "query_dict ''title'' = Some t" and "query_dict ''abstract'' = Some a"
  shows "build_query query_dict = Inr (''Title: '' @ t @ [CHR 0x0A] @ ''Abstract: '' @ a)"
  using assms by (simp add: build_query_def newline_def)

theorem build_query_format_witness:
  "build_query [''title'' \<mapsto> ''Q'', ''abstract'' \<mapsto> ''Z'']
     = Inr (''Title: Q'' @ [CHR 0x0A] @ ''Abstract: Z'')"
  using build_query_format [of "[''title'' \<mapsto> ''Q'', ''abstract'' \<mapsto> ''Z'']" "''Q''" "''Z''"]
  by simp

end
